theory Spec2Isabelle
  imports Main "HOL-Library.Sublist"
begin

section \<open>Strings\<close>

text \<open>
  A JavaScript string is modelled as a \<^typ>\<open>string\<close>: the bytes of its UTF-8 encoding.
  \<open>toLowerCase\<close> lowers the letters \<open>A\<close> to \<open>Z\<close> and leaves every other byte as it
  is (letters outside ASCII are not lowered in this model); \<open>s.includes(kw)\<close> holds
  when \<open>kw\<close> occurs in \<open>s\<close> as a contiguous block.
\<close>

definition lower_char :: "char \<Rightarrow> char" where
  "lower_char c =
     (case map_of (zip ''ABCDEFGHIJKLMNOPQRSTUVWXYZ'' ''abcdefghijklmnopqrstuvwxyz'') c of
        None \<Rightarrow> c
      | Some l \<Rightarrow> l)"

definition toLowerCase :: "string \<Rightarrow> string" where
  "toLowerCase s = map lower_char s"

definition str_includes :: "string \<Rightarrow> string \<Rightarrow> bool" where
  "str_includes s kw = sublist kw s"

section \<open>The data store: volunteer opportunities\<close>

text \<open>
  The records of \<open>CC.json\<close> reach the handlers untyped. An opportunity is modelled with
  the nine fields the handlers read and copy, each of the kind the handlers use it at
  (ages and group sizes are integers); a field that may be missing from a record is an
  option.
\<close>

record location =
  city :: string
  facility :: string
  address :: "string option"

record schedule =
  sched_type :: string
  details :: string

record requirements =
  age_minimum :: int
  background_check :: "bool option"
  skills :: "string list"
  group_friendly :: bool
  max_group_size :: "int option"

record contact =
  phone :: string
  email :: string

record opportunity =
  opp_id :: string
  title :: string
  description :: string
  location :: location
  schedule :: schedule
  requirements :: requirements
  contact :: contact
  signup_url :: "string option"
  source_url :: string

section \<open>The parameters of the opportunity search\<close>

text \<open>
  \<open>GetVolunteerOpportunitiesSchema\<close>: six optional fields. \<open>schedule_type\<close> is one of
  four literals; the stored schedule type is whatever string the data file holds.
\<close>

datatype schedule_type = OneTime | Weekly | Flexible | Ongoing

fun schedule_type_str :: "schedule_type \<Rightarrow> string" where
  "schedule_type_str OneTime = ''one-time''"
| "schedule_type_str Weekly = ''weekly''"
| "schedule_type_str Flexible = ''flexible''"
| "schedule_type_str Ongoing = ''ongoing''"

record search_params =
  p_keyword :: "string option"
  p_city :: "string option"
  p_schedule_type :: "schedule_type option"
  p_age_minimum :: "int option"
  p_group_friendly :: "bool option"
  p_skill :: "string option"

definition no_params :: search_params where
  "no_params =
     \<lparr>p_keyword = None, p_city = None, p_schedule_type = None, p_age_minimum = None,
      p_group_friendly = None, p_skill = None\<rparr>"

section \<open>The filter chain of \<open>get_volunteer_opportunities\<close>\<close>

text \<open>
  Each \<open>if\<close> of the handler is one step on the running list \<open>opportunities\<close>. The
  guards \<open>if (params.keyword)\<close>, \<open>if (params.city)\<close> and \<open>if (params.skill)\<close> test
  truthiness: they skip the step when the field is undefined and when it is the empty
  string. The guards of \<open>age_minimum\<close> and \<open>group_friendly\<close> compare with
  \<open>undefined\<close>, so the values \<open>0\<close> and \<open>false\<close> run the step.
\<close>

definition keyword_step :: "search_params \<Rightarrow> opportunity list \<Rightarrow> opportunity list" where
  "keyword_step params opportunities =
     (case p_keyword params of
        None \<Rightarrow> opportunities
      | Some k \<Rightarrow>
          if k = [] then opportunities
          else (let kw = toLowerCase k in
                filter (\<lambda>opp. str_includes (toLowerCase (title opp)) kw \<or>
                                str_includes (toLowerCase (description opp)) kw)
                  opportunities))"

definition city_step :: "search_params \<Rightarrow> opportunity list \<Rightarrow> opportunity list" where
  "city_step params opportunities =
     (case p_city params of
        None \<Rightarrow> opportunities
      | Some c \<Rightarrow>
          if c = [] then opportunities
          else (let lc = toLowerCase c in
                filter (\<lambda>opp. str_includes (toLowerCase (city (location opp))) lc)
                  opportunities))"

definition schedule_step :: "search_params \<Rightarrow> opportunity list \<Rightarrow> opportunity list" where
  "schedule_step params opportunities =
     (case p_schedule_type params of
        None \<Rightarrow> opportunities
      | Some st \<Rightarrow>
          filter (\<lambda>opp. sched_type (schedule opp) = schedule_type_str st) opportunities)"

definition age_step :: "search_params \<Rightarrow> opportunity list \<Rightarrow> opportunity list" where
  "age_step params opportunities =
     (case p_age_minimum params of
        None \<Rightarrow> opportunities
      | Some a \<Rightarrow> filter (\<lambda>opp. age_minimum (requirements opp) \<le> a) opportunities)"

definition group_step :: "search_params \<Rightarrow> opportunity list \<Rightarrow> opportunity list" where
  "group_step params opportunities =
     (case p_group_friendly params of
        None \<Rightarrow> opportunities
      | Some g \<Rightarrow> filter (\<lambda>opp. group_friendly (requirements opp) = g) opportunities)"

definition skill_step :: "search_params \<Rightarrow> opportunity list \<Rightarrow> opportunity list" where
  "skill_step params opportunities =
     (case p_skill params of
        None \<Rightarrow> opportunities
      | Some s \<Rightarrow>
          if s = [] then opportunities
          else (let skill = toLowerCase s in
                filter (\<lambda>opp. list_ex (\<lambda>s. str_includes (toLowerCase s) skill)
                                  (skills (requirements opp)))
                  opportunities))"

definition filter_opportunities :: "opportunity list \<Rightarrow> search_params \<Rightarrow> opportunity list" where
  "filter_opportunities opps params =
     skill_step params (group_step params (age_step params
       (schedule_step params (city_step params (keyword_step params opps)))))"

text \<open>
  The condition each step imposes on one opportunity, with the skipped step imposing
  none. \<open>only_keyword\<close> and its five companions are the queries that supply one
  criterion of \<open>params\<close> and leave the other five out.
\<close>

definition keeps_keyword :: "search_params \<Rightarrow> opportunity \<Rightarrow> bool" where
  "keeps_keyword params opp =
     (case p_keyword params of
        None \<Rightarrow> True
      | Some k \<Rightarrow>
          k = [] \<or> str_includes (toLowerCase (title opp)) (toLowerCase k) \<or>
          str_includes (toLowerCase (description opp)) (toLowerCase k))"

definition keeps_city :: "search_params \<Rightarrow> opportunity \<Rightarrow> bool" where
  "keeps_city params opp =
     (case p_city params of
        None \<Rightarrow> True
      | Some c \<Rightarrow> c = [] \<or> str_includes (toLowerCase (city (location opp))) (toLowerCase c))"

definition keeps_schedule :: "search_params \<Rightarrow> opportunity \<Rightarrow> bool" where
  "keeps_schedule params opp =
     (case p_schedule_type params of
        None \<Rightarrow> True
      | Some st \<Rightarrow> sched_type (schedule opp) = schedule_type_str st)"

definition keeps_age :: "search_params \<Rightarrow> opportunity \<Rightarrow> bool" where
  "keeps_age params opp =
     (case p_age_minimum params of
        None \<Rightarrow> True
      | Some a \<Rightarrow> age_minimum (requirements opp) \<le> a)"

definition keeps_group :: "search_params \<Rightarrow> opportunity \<Rightarrow> bool" where
  "keeps_group params opp =
     (case p_group_friendly params of
        None \<Rightarrow> True
      | Some g \<Rightarrow> group_friendly (requirements opp) = g)"

definition keeps_skill :: "search_params \<Rightarrow> opportunity \<Rightarrow> bool" where
  "keeps_skill params opp =
     (case p_skill params of
        None \<Rightarrow> True
      | Some s \<Rightarrow>
          s = [] \<or>
          list_ex (\<lambda>x. str_includes (toLowerCase x) (toLowerCase s)) (skills (requirements opp)))"

definition only_keyword :: "search_params \<Rightarrow> search_params" where
  "only_keyword params = no_params\<lparr>p_keyword := p_keyword params\<rparr>"

definition only_city :: "search_params \<Rightarrow> search_params" where
  "only_city params = no_params\<lparr>p_city := p_city params\<rparr>"

definition only_schedule_type :: "search_params \<Rightarrow> search_params" where
  "only_schedule_type params = no_params\<lparr>p_schedule_type := p_schedule_type params\<rparr>"

definition only_age_minimum :: "search_params \<Rightarrow> search_params" where
  "only_age_minimum params = no_params\<lparr>p_age_minimum := p_age_minimum params\<rparr>"

definition only_group_friendly :: "search_params \<Rightarrow> search_params" where
  "only_group_friendly params = no_params\<lparr>p_group_friendly := p_group_friendly params\<rparr>"

definition only_skill :: "search_params \<Rightarrow> search_params" where
  "only_skill params = no_params\<lparr>p_skill := p_skill params\<rparr>"

section \<open>Rendering numbers and lists\<close>

text \<open>
  Template literals render an integer in decimal, with a minus sign when it is
  negative; \<open>xs.join(sep)\<close> puts \<open>sep\<close> between the elements.
\<close>

definition digit_char :: "nat \<Rightarrow> char" where
  "digit_char d = ''0123456789'' ! (d mod 10)"

function show_nat :: "nat \<Rightarrow> string" where
  "show_nat n = (if n < 10 then [digit_char n] else show_nat (n div 10) @ [digit_char n])"
  by pat_completeness auto
termination
  by (relation "measure (\<lambda>n. n)") auto

declare show_nat.simps [simp del]

definition show_int :: "int \<Rightarrow> string" where
  "show_int i = (if i < 0 then ''-'' @ show_nat (nat (- i)) else show_nat (nat i))"

fun str_join :: "string \<Rightarrow> string list \<Rightarrow> string" where
  "str_join sep [] = []"
| "str_join sep [x] = x"
| "str_join sep (x # y # ys) = x @ sep @ str_join sep (y # ys)"

section \<open>The handler \<open>get_volunteer_opportunities\<close>\<close>

text \<open>
  The startup check of \<open>CC.json\<close> asks only that \<open>volunteer\<close>, \<open>donations\<close> and
  \<open>organization\<close> are there and that \<open>volunteer.opportunities\<close> is an array. The
  objects below them may be missing: \<open>general_info\<close> and its \<open>main_contact\<close> are
  options, and reading a property of a missing object throws a \<open>TypeError\<close>, here with
  the name of the property read.
\<close>

datatype exn = TypeError string

record general_info =
  main_contact :: "contact option"

record volunteer =
  opportunities :: "opportunity list"
  general_info :: "general_info option"

record structured_content =
  sc_opportunities :: "opportunity list"
  sc_contact :: "contact option"

record widget_meta =
  outputTemplate :: string
  widgetAccessible :: bool
  widgetDescription :: string

text \<open>
  A tool result: the one text item of \<open>content\<close>, and \<open>structuredContent\<close> and
  \<open>_meta\<close> when the handler sets them.
\<close>

record tool_response =
  resp_text :: string
  structuredContent :: "structured_content option"
  resp_meta :: "widget_meta option"

definition text_response :: "string \<Rightarrow> tool_response" where
  "text_response t = \<lparr>resp_text = t, structuredContent = None, resp_meta = None\<rparr>"

definition copy_opp :: "opportunity \<Rightarrow> opportunity" where
  "copy_opp opp =
     \<lparr>opp_id = opp_id opp, title = title opp, description = description opp,
      location = location opp, schedule = schedule opp, requirements = requirements opp,
      contact = contact opp, signup_url = signup_url opp, source_url = source_url opp\<rparr>"

definition no_match_text :: string where
  "no_match_text =
     ''No volunteer opportunities match your criteria. Try adjusting your filters or contact volunteer@cctwincities.org at (612) 204-8435 for more options.''"

definition volunteer_error_text :: string where
  "volunteer_error_text =
     ''Sorry, an error occurred while searching for volunteer opportunities. Please try again or contact volunteer@cctwincities.org at (612) 204-8435.''"

definition volunteer_meta :: widget_meta where
  "volunteer_meta =
     \<lparr>outputTemplate = ''ui://widget/volunteer-list.html'',
      widgetAccessible = True,
      widgetDescription = ''Interactive volunteer opportunities list for Catholic Charities Twin Cities. Displays opportunities with filtering by location (Minneapolis, St. Paul, Maplewood), schedule type, age requirements, and skills. Shows opportunity details including title, description, address, schedule, age requirements, group capacity, required skills, contact info (phone/email), and signup links. Users can email volunteer coordinators or sign up directly through provided links. Helps users find and register for volunteer opportunities serving homeless individuals, families in need, meal service, warehouse work, and other community service activities across Twin Cities metro area.''\<rparr>"

definition opp_paragraph :: "nat \<times> opportunity \<Rightarrow> string" where
  "opp_paragraph ip =
     (case ip of (idx, opp) \<Rightarrow>
        show_nat (idx + 1) @ ''. **'' @ title opp @ ''** - '' @ city (location opp) @ ''\<newline>'' @
        ''   '' @ description opp @ ''\<newline>'' @
        ''   Schedule: '' @ details (schedule opp) @ ''\<newline>'' @
        ''   Age: '' @ show_int (age_minimum (requirements opp)) @ ''+'' @
        (if group_friendly (requirements opp)
         then '' | Group-friendly (max '' @
              (case max_group_size (requirements opp) of
                 None \<Rightarrow> ''N/A''
               | Some m \<Rightarrow> if m = 0 then ''N/A'' else show_int m) @ '')''
         else []) @
        (if length (skills (requirements opp)) > 0
         then '' | Skills: '' @ str_join '', '' (skills (requirements opp))
         else []) @
        ''\<newline>'' @
        ''   Contact: '' @ email (contact opp) @ '' | '' @ phone (contact opp) @ ''\<newline>'' @
        (case signup_url opp of
           None \<Rightarrow> []
         | Some u \<Rightarrow> if u = [] then [] else ''   Sign up: '' @ u @ ''\<newline>''))"

definition text_summary :: "opportunity list \<Rightarrow> contact option \<Rightarrow> exn + string" where
  "text_summary opps mc =
     (if length opps = 0 then Inr no_match_text
      else (case mc of
              None \<Rightarrow> Inl (TypeError ''email'')
            | Some c \<Rightarrow>
                Inr (''Found '' @ show_nat (length opps) @ '' volunteer opportunit'' @
                     (if length opps = 1 then ''y'' else ''ies'') @ '':\<newline>\<newline>'' @
                     str_join ''\<newline>'' (map opp_paragraph (enumerate 0 opps)) @
                     ''\<newline>**General volunteer contact:** '' @ email c @ '' | '' @ phone c)))"

text \<open>The body of the \<open>try\<close> block, and the handler with its \<open>catch\<close>.\<close>

definition volunteer_body :: "volunteer \<Rightarrow> search_params \<Rightarrow> exn + tool_response" where
  "volunteer_body vol params =
     (let opps = filter_opportunities (opportunities vol) params in
      case general_info vol of
        None \<Rightarrow> Inl (TypeError ''main_contact'')
      | Some gi \<Rightarrow>
          (let sc = \<lparr>sc_opportunities = map copy_opp opps, sc_contact = main_contact gi\<rparr> in
           case text_summary opps (main_contact gi) of
             Inl e \<Rightarrow> Inl e
           | Inr textSummary \<Rightarrow>
               Inr \<lparr>resp_text = textSummary, structuredContent = Some sc,
                    resp_meta = Some volunteer_meta\<rparr>))"

definition get_volunteer_opportunities :: "volunteer \<Rightarrow> search_params \<Rightarrow> tool_response" where
  "get_volunteer_opportunities vol params =
     (case volunteer_body vol params of
        Inl e \<Rightarrow> text_response volunteer_error_text
      | Inr r \<Rightarrow> r)"

section \<open>The handler \<open>get_donation_options\<close>\<close>

text \<open>
  \<open>ccData.donations\<close> is an object keyed by the donation type; a key may be missing.
  The section under each key is modelled with the fields its branch of the handler
  reads.
\<close>

record online_donation =
  donation_page_url :: string
  types :: "string list"
  online_notes :: string
  online_contact :: contact

record accepted_item =
  category :: string
  item_details :: string
  restrictions :: "string option"

record drop_off_location =
  drop_name :: string
  drop_address :: string
  drop_hours :: string
  drop_phone :: string
  drop_email :: string

record in_kind_donation =
  accepted_items :: "accepted_item list"
  not_accepted :: "string list"
  drop_off_locations :: "drop_off_location list"
  policies :: "string list"
  wishlist_url :: string

record vehicle_donation =
  process_description :: string
  vehicle_phone :: string
  program_url :: string

record donations =
  online :: "online_donation option"
  in_kind :: "in_kind_donation option"
  vehicle :: "vehicle_donation option"

text \<open>The bullet of the rendered lists, U+2022, as its three UTF-8 bytes.\<close>

definition bullet :: string where
  "bullet = [CHR 0xE2, CHR 0x80, CHR 0xA2]"

definition bullet_lines :: "string list \<Rightarrow> string" where
  "bullet_lines xs = str_join ''\<newline>'' (map (\<lambda>t. bullet @ '' '' @ t) xs)"

definition online_text :: "online_donation \<Rightarrow> string" where
  "online_text donationData =
     ''**Online Donations to Catholic Charities Twin Cities**\<newline>\<newline>'' @
     ''Donate securely online at: '' @ donation_page_url donationData @ ''\<newline>\<newline>'' @
     ''**Donation Types:**\<newline>'' @ bullet_lines (types donationData) @ ''\<newline>\<newline>'' @
     online_notes donationData @ ''\<newline>\<newline>'' @
     ''**Questions about giving?**\<newline>'' @
     ''Phone: '' @ phone (online_contact donationData) @ ''\<newline>'' @
     ''Email: '' @ email (online_contact donationData)"

definition accepted_item_text :: "accepted_item \<Rightarrow> string" where
  "accepted_item_text cat =
     ''**'' @ category cat @ '':**\<newline>'' @ item_details cat @ ''\<newline>'' @
     (case restrictions cat of
        None \<Rightarrow> []
      | Some r \<Rightarrow> if r = [] then [] else ''*'' @ r @ ''*\<newline>'') @
     ''\<newline>''"

definition drop_off_text :: "drop_off_location \<Rightarrow> string" where
  "drop_off_text loc =
     drop_name loc @ ''\<newline>'' @
     drop_address loc @ ''\<newline>'' @
     ''Hours: '' @ drop_hours loc @ ''\<newline>'' @
     ''Phone: '' @ drop_phone loc @ ''\<newline>'' @
     ''Email: '' @ drop_email loc @ ''\<newline>\<newline>''"

definition in_kind_text :: "in_kind_donation \<Rightarrow> string" where
  "in_kind_text donationData =
     ''**In-Kind Donations to Catholic Charities Twin Cities**\<newline>\<newline>'' @
     ''**Currently Accepting (NEW items only):**\<newline>\<newline>'' @
     concat (map accepted_item_text (accepted_items donationData)) @
     ''**NOT Accepted:**\<newline>'' @ bullet_lines (not_accepted donationData) @ ''\<newline>\<newline>'' @
     ''**Drop-Off Location:**\<newline>'' @
     concat (map drop_off_text (drop_off_locations donationData)) @
     ''**Important Policies:**\<newline>'' @ bullet_lines (policies donationData) @ ''\<newline>\<newline>'' @
     ''View full wishlist: '' @ wishlist_url donationData"

definition vehicle_text :: "vehicle_donation \<Rightarrow> string" where
  "vehicle_text donationData =
     ''**Vehicle Donation to Catholic Charities Twin Cities**\<newline>\<newline>'' @
     process_description donationData @ ''\<newline>\<newline>'' @
     ''**To donate your vehicle:**\<newline>'' @
     ''Phone: '' @ vehicle_phone donationData @ ''\<newline>'' @
     ''Online: '' @ program_url donationData @ ''\<newline>\<newline>'' @
     ''Vehicles accepted: cars, trucks, trailers, boats, RVs, motorcycles, and other motorized vehicles.''"

text \<open>
  The \<open>if\<close> / \<open>else if\<close> chain on \<open>donationType\<close>: three rendering branches, and no
  \<open>else\<close>, so any other value leaves \<open>textContent\<close> empty.
\<close>

datatype donation_branch = OnlineBranch | InKindBranch | VehicleBranch | NoBranch

definition select_branch :: "string \<Rightarrow> donation_branch" where
  "select_branch donationType =
     (if donationType = ''online'' then OnlineBranch
      else if donationType = ''in_kind'' then InKindBranch
      else if donationType = ''vehicle'' then VehicleBranch
      else NoBranch)"

definition donation_text :: "donations \<Rightarrow> string \<Rightarrow> exn + string" where
  "donation_text don donationType =
     (case select_branch donationType of
        OnlineBranch \<Rightarrow>
          (case online don of
             None \<Rightarrow> Inl (TypeError ''donation_page_url'')
           | Some donationData \<Rightarrow> Inr (online_text donationData))
      | InKindBranch \<Rightarrow>
          (case in_kind don of
             None \<Rightarrow> Inl (TypeError ''accepted_items'')
           | Some donationData \<Rightarrow> Inr (in_kind_text donationData))
      | VehicleBranch \<Rightarrow>
          (case vehicle don of
             None \<Rightarrow> Inl (TypeError ''process_description'')
           | Some donationData \<Rightarrow> Inr (vehicle_text donationData))
      | NoBranch \<Rightarrow> Inr [])"

definition donation_error_text :: string where
  "donation_error_text =
     ''Sorry, an error occurred while getting donation information. Please contact giving.info@cctwincities.org at (612) 204-8374.''"

definition donation_body :: "donations \<Rightarrow> string \<Rightarrow> exn + tool_response" where
  "donation_body don donationType =
     (case donation_text don donationType of
        Inl e \<Rightarrow> Inl e
      | Inr textContent \<Rightarrow> Inr (text_response textContent))"

definition get_donation_options :: "donations \<Rightarrow> string \<Rightarrow> tool_response" where
  "get_donation_options don donationType =
     (case donation_body don donationType of
        Inl e \<Rightarrow> text_response donation_error_text
      | Inr r \<Rightarrow> r)"

text \<open>
  \<open>GetDonationOptionsSchema\<close> is \<open>z.enum(["online", "in_kind", "vehicle"])\<close>: it accepts
  exactly the three literals. The handler is registered with this schema, and the
  protocol library parses the arguments with it before it calls the handler; a value
  the schema refuses gets no handler call.
\<close>

definition donation_types :: "string list" where
  "donation_types = [''online'', ''in_kind'', ''vehicle'']"

definition GetDonationOptionsSchema :: "string \<Rightarrow> string option" where
  "GetDonationOptionsSchema v = (if List.member donation_types v then Some v else None)"

definition call_get_donation_options :: "donations \<Rightarrow> string \<Rightarrow> tool_response option" where
  "call_get_donation_options don v =
     (case GetDonationOptionsSchema v of
        None \<Rightarrow> None
      | Some donationType \<Rightarrow> Some (get_donation_options don donationType))"

section \<open>The handler \<open>search_org_info\<close>\<close>

text \<open>
  \<open>ccData.organization\<close>: three strings, and five objects or arrays that may be missing
  (\<open>about\<close>, with its \<open>stats\<close>; \<open>services\<close>; \<open>contact\<close>; \<open>locations\<close>;
  \<open>upcoming_events\<close>).
\<close>

record stats =
  people_served_annually :: int
  meals_served_annually :: int
  nights_of_housing_provided_annually :: int
  volunteers_annually :: int
  volunteer_hours_annually :: int
  years_operating :: int

record about =
  history :: string
  founded :: int
  stats :: "stats option"

record service =
  svc_name :: string
  svc_description :: string
  svc_keywords :: "string list"

record org_contact =
  main_phone :: string
  main_email :: string
  hours :: string

record org_location =
  loc_name :: string
  loc_address :: string
  loc_phone :: "string option"

record event =
  evt_name :: string
  evt_date :: string
  evt_description :: string
  evt_url :: string

record organization =
  mission :: string
  org_source_url :: string
  service_area :: string
  about :: "about option"
  services :: "service list option"
  org_contact :: "org_contact option"
  locations :: "org_location list option"
  upcoming_events :: "event list option"

record info_block =
  heading :: string
  summary :: string
  block_source_url :: string

text \<open>
  \<open>query.split(" ")\<close> cuts at every single space, so two spaces in a row, a leading or
  a trailing space and the empty query each give an empty word.
\<close>

fun split_space :: "string \<Rightarrow> string list" where
  "split_space [] = [[]]"
| "split_space (c # cs) =
     (if c = CHR '' '' then [] # split_space cs
      else (case split_space cs of
              [] \<Rightarrow> [[c]]
            | w # ws \<Rightarrow> (c # w) # ws))"

text \<open>
  \<open>n.toLocaleString()\<close> on an integer, in the \<open>en-US\<close> locale: a comma before every
  group of three digits.
\<close>

fun group3 :: "string \<Rightarrow> string" where
  "group3 (a # b # c # d # rest) = a # b # c # CHR '','' # group3 (d # rest)"
| "group3 xs = xs"

definition toLocaleString :: "int \<Rightarrow> string" where
  "toLocaleString i =
     (if i < 0 then ''-'' else []) @ rev (group3 (rev (show_nat (nat \<bar>i\<bar>))))"

text \<open>
  Each search block of the handler pushes onto \<open>results\<close> or leaves it alone; each is
  modelled by the blocks it pushes. \<open>append_part\<close> runs two of them in order: an
  exception in the first one ends the \<open>try\<close> block before the second one runs.
\<close>

fun append_part :: "exn + 'a list \<Rightarrow> exn + 'a list \<Rightarrow> exn + 'a list" where
  "append_part (Inl e) r = Inl e"
| "append_part (Inr xs) (Inl e) = Inl e"
| "append_part (Inr xs) (Inr ys) = Inr (xs @ ys)"

definition mission_part :: "organization \<Rightarrow> string \<Rightarrow> exn + info_block list" where
  "mission_part org query =
     (if str_includes query ''mission'' \<or> str_includes query ''about'' \<or>
         str_includes query ''what do'' \<or> str_includes query ''purpose''
      then (case about org of
              None \<Rightarrow> Inl (TypeError ''history'')
            | Some a \<Rightarrow>
                (case stats a of
                   None \<Rightarrow> Inl (TypeError ''years_operating'')
                 | Some st \<Rightarrow>
                     Inr [\<lparr>heading = ''Mission'', summary = mission org,
                           block_source_url = org_source_url org\<rparr>,
                          \<lparr>heading = ''History'',
                           summary = history a @ '' Founded in '' @ show_int (founded a) @
                             '', Catholic Charities has served the Twin Cities for '' @
                             show_int (years_operating st) @ '' years.'',
                           block_source_url = org_source_url org\<rparr>]))
      else Inr [])"

definition serviceKeywords :: "string list" where
  "serviceKeywords =
     [''service'', ''program'', ''help'', ''support'', ''shelter'', ''housing'', ''food'',
      ''meal'', ''homeless'', ''family'', ''senior'', ''disability'', ''child'']"

definition service_matches :: "string \<Rightarrow> service \<Rightarrow> bool" where
  "service_matches query svc =
     (let matchText =
        toLowerCase (svc_name svc @ '' '' @ svc_description svc @ '' '' @
                     str_join '' '' (svc_keywords svc))
      in list_ex (\<lambda>word. str_includes matchText word) (split_space query))"

definition services_part :: "organization \<Rightarrow> string \<Rightarrow> exn + info_block list" where
  "services_part org query =
     (if list_ex (\<lambda>kw. str_includes query kw) serviceKeywords
      then (case services org of
              None \<Rightarrow> Inl (TypeError ''filter'')
            | Some svcs \<Rightarrow>
                (let matchingServices = filter (service_matches query) svcs in
                 if length matchingServices > 0
                 then Inr (map (\<lambda>svc. \<lparr>heading = svc_name svc, summary = svc_description svc,
                                         block_source_url = org_source_url org\<rparr>)
                             matchingServices)
                 else Inr [\<lparr>heading = ''Services Overview'',
                            summary =
                              ''Catholic Charities Twin Cities offers these core services:\<newline>\<newline>'' @
                              str_join ''\<newline>\<newline>''
                                (map (\<lambda>svc. bullet @ '' **'' @ svc_name svc @ ''**: '' @
                                             svc_description svc) svcs),
                            block_source_url = org_source_url org\<rparr>]))
      else Inr [])"

definition location_text :: "org_location \<Rightarrow> string" where
  "location_text loc =
     ''**'' @ loc_name loc @ ''**\<newline>'' @ loc_address loc @
     (case loc_phone loc of
        None \<Rightarrow> []
      | Some ph \<Rightarrow> if ph = [] then [] else ''\<newline>Phone: '' @ ph)"

definition contact_part :: "organization \<Rightarrow> string \<Rightarrow> exn + info_block list" where
  "contact_part org query =
     (if str_includes query ''contact'' \<or> str_includes query ''phone'' \<or>
         str_includes query ''email'' \<or> str_includes query ''location'' \<or>
         str_includes query ''address'' \<or> str_includes query ''where''
      then (case org_contact org of
              None \<Rightarrow> Inl (TypeError ''main_phone'')
            | Some c \<Rightarrow>
                (case locations org of
                   None \<Rightarrow> Inl (TypeError ''map'')
                 | Some locs \<Rightarrow>
                     Inr [\<lparr>heading = ''Contact Information'',
                           summary =
                             ''**Main Office:**\<newline>'' @
                             ''Phone: '' @ main_phone c @ ''\<newline>'' @
                             ''Email: '' @ main_email c @ ''\<newline>'' @
                             ''Hours: '' @ hours c @ ''\<newline>\<newline>'' @
                             ''**Volunteer inquiries:** volunteer@cctwincities.org | (612) 204-8435\<newline>'' @
                             ''**Donation inquiries:** giving.info@cctwincities.org | (612) 204-8374'',
                           block_source_url = org_source_url org\<rparr>,
                          \<lparr>heading = ''Locations'',
                           summary = str_join ''\<newline>\<newline>'' (map location_text locs),
                           block_source_url = org_source_url org\<rparr>]))
      else Inr [])"

definition event_text :: "event \<Rightarrow> string" where
  "event_text evt =
     ''**'' @ evt_name evt @ ''** - '' @ evt_date evt @ ''\<newline>'' @
     evt_description evt @ ''\<newline>'' @ evt_url evt"

definition events_part :: "organization \<Rightarrow> string \<Rightarrow> exn + info_block list" where
  "events_part org query =
     (if str_includes query ''event'' \<or> str_includes query ''calendar''
      then (case upcoming_events org of
              None \<Rightarrow> Inl (TypeError ''map'')
            | Some evts \<Rightarrow>
                Inr [\<lparr>heading = ''Upcoming Events'',
                      summary = str_join ''\<newline>\<newline>'' (map event_text evts),
                      block_source_url = org_source_url org\<rparr>])
      else Inr [])"

definition stats_part :: "organization \<Rightarrow> string \<Rightarrow> exn + info_block list" where
  "stats_part org query =
     (if str_includes query ''stat'' \<or> str_includes query ''impact'' \<or>
         str_includes query ''how many'' \<or> str_includes query ''number''
      then (case about org of
              None \<Rightarrow> Inl (TypeError ''stats'')
            | Some a \<Rightarrow>
                (case stats a of
                   None \<Rightarrow> Inl (TypeError ''people_served_annually'')
                 | Some st \<Rightarrow>
                     Inr [\<lparr>heading = ''Impact & Statistics'',
                           summary =
                             ''Catholic Charities Twin Cities serves the community with significant impact:\<newline>\<newline>'' @
                             bullet @ '' **'' @ toLocaleString (people_served_annually st) @
                               ''** people served annually\<newline>'' @
                             bullet @ '' **'' @ toLocaleString (meals_served_annually st) @
                               ''** meals served annually\<newline>'' @
                             bullet @ '' **'' @ toLocaleString (nights_of_housing_provided_annually st) @
                               ''** nights of housing provided annually\<newline>'' @
                             bullet @ '' **'' @ toLocaleString (volunteers_annually st) @
                               ''** volunteers annually\<newline>'' @
                             bullet @ '' **'' @ toLocaleString (volunteer_hours_annually st) @
                               ''+** volunteer hours annually\<newline>'' @
                             bullet @ '' **'' @ show_int (years_operating st) @
                               ''** years serving the Twin Cities'',
                           block_source_url = org_source_url org\<rparr>]))
      else Inr [])"

definition default_part :: "organization \<Rightarrow> exn + info_block list" where
  "default_part org =
     (case about org of
        None \<Rightarrow> Inl (TypeError ''founded'')
      | Some a \<Rightarrow>
          (case org_contact org of
             None \<Rightarrow> Inl (TypeError ''main_phone'')
           | Some c \<Rightarrow>
               Inr [\<lparr>heading = ''About Catholic Charities Twin Cities'',
                     summary =
                       mission org @ ''\<newline>\<newline>Serving the '' @ service_area org @ '' since '' @
                       show_int (founded a) @ ''.\<newline>\<newline>Contact: '' @ main_phone c @ '' | '' @
                       main_email c,
                     block_source_url = org_source_url org\<rparr>]))"

text \<open>
  \<open>org_results\<close> is the list \<open>results\<close> as it stands when \<open>textContent\<close> is built;
  \<open>query\<close> is already lower-cased here.
\<close>

definition org_results :: "organization \<Rightarrow> string \<Rightarrow> exn + info_block list" where
  "org_results org query =
     (case append_part (mission_part org query)
             (append_part (services_part org query)
               (append_part (contact_part org query)
                 (append_part (events_part org query) (stats_part org query)))) of
        Inl e \<Rightarrow> Inl e
      | Inr results \<Rightarrow> if length results = 0 then default_part org else Inr results)"

definition block_text :: "info_block \<Rightarrow> string" where
  "block_text result =
     ''**'' @ heading result @ ''**\<newline>\<newline>'' @ summary result @
     ''\<newline>\<newline>Source: '' @ block_source_url result"

definition org_error_text :: string where
  "org_error_text =
     ''Sorry, an error occurred while searching organization information. Please contact info@cctwincities.org at (612) 204-8500.''"

definition org_body :: "organization \<Rightarrow> string \<Rightarrow> exn + tool_response" where
  "org_body org q =
     (let query = toLowerCase q in
      case org_results org query of
        Inl e \<Rightarrow> Inl e
      | Inr results \<Rightarrow>
          Inr (text_response (str_join ''\<newline>\<newline>---\<newline>\<newline>'' (map block_text results))))"

definition search_org_info :: "organization \<Rightarrow> string \<Rightarrow> tool_response" where
  "search_org_info org q =
     (case org_body org q of
        Inl e \<Rightarrow> text_response org_error_text
      | Inr r \<Rightarrow> r)"

section \<open>A sample data store\<close>

text \<open>
  Two opportunities, one asking for age 14 and one for age 18, on which the theorems
  below are run.
\<close>

definition meal_service :: opportunity where
  "meal_service =
     \<lparr>opp_id = ''meal-service'', title = ''Meal Service'',
      description = ''Serve dinner at Higher Ground.'',
      location = \<lparr>city = ''Minneapolis'', facility = ''Higher Ground'', address = None\<rparr>,
      schedule = \<lparr>sched_type = ''weekly'', details = ''Weekday evenings''\<rparr>,
      requirements = \<lparr>age_minimum = 14, background_check = None, skills = [],
                      group_friendly = True, max_group_size = Some 10\<rparr>,
      contact = \<lparr>phone = ''(612) 204-8435'', email = ''volunteer@cctwincities.org''\<rparr>,
      signup_url = None, source_url = ''https://www.cctwincities.org/volunteer''\<rparr>"

definition sewing_circle :: opportunity where
  "sewing_circle =
     \<lparr>opp_id = ''sewing-circle'', title = ''Sewing Circle'',
      description = ''Mend clothing for guests.'',
      location = \<lparr>city = ''Saint Paul'', facility = ''Dorothy Day Place'', address = None\<rparr>,
      schedule = \<lparr>sched_type = ''flexible'', details = ''At home''\<rparr>,
      requirements = \<lparr>age_minimum = 18, background_check = Some True, skills = [''Sewing''],
                      group_friendly = False, max_group_size = None\<rparr>,
      contact = \<lparr>phone = ''(612) 204-8435'', email = ''volunteer@cctwincities.org''\<rparr>,
      signup_url = Some ''https://www.cctwincities.org/signup'',
      source_url = ''https://www.cctwincities.org/volunteer''\<rparr>"

definition sample_volunteer :: volunteer where
  "sample_volunteer =
     \<lparr>opportunities = [meal_service, sewing_circle],
      general_info =
        Some \<lparr>main_contact =
          Some \<lparr>phone = ''(612) 204-8435'', email = ''volunteer@cctwincities.org''\<rparr>\<rparr>\<rparr>"

definition sample_online :: online_donation where
  "sample_online =
     \<lparr>donation_page_url = ''https://www.cctwincities.org/donate'',
      types = [''One-time'', ''Monthly''],
      online_notes = ''All gifts are tax deductible.'',
      online_contact = \<lparr>phone = ''(612) 204-8374'', email = ''giving.info@cctwincities.org''\<rparr>\<rparr>"

definition sample_in_kind :: in_kind_donation where
  "sample_in_kind =
     \<lparr>accepted_items =
        [\<lparr>category = ''Winter gear'', item_details = ''Coats, hats and gloves'',
          restrictions = Some ''Adult sizes only''\<rparr>],
      not_accepted = [''Furniture''],
      drop_off_locations =
        [\<lparr>drop_name = ''Distribution Center'', drop_address = ''341 Chester St, St. Paul'',
          drop_hours = ''Monday-Friday 9am-4pm'', drop_phone = ''(612) 204-8374'',
          drop_email = ''giving.info@cctwincities.org''\<rparr>],
      policies = [''New items only''],
      wishlist_url = ''https://www.cctwincities.org/wishlist''\<rparr>"

definition sample_vehicle :: vehicle_donation where
  "sample_vehicle =
     \<lparr>process_description = ''Free pickup; the gift is tax deductible.'',
      vehicle_phone = ''(855) 500-7433'',
      program_url = ''https://www.cctwincities.org/vehicle''\<rparr>"

definition sample_donations :: donations where
  "sample_donations =
     \<lparr>online = Some sample_online, in_kind = Some sample_in_kind, vehicle = Some sample_vehicle\<rparr>"

definition sample_stats :: stats where
  "sample_stats =
     \<lparr>people_served_annually = 30000, meals_served_annually = 1000000,
      nights_of_housing_provided_annually = 550000, volunteers_annually = 8000,
      volunteer_hours_annually = 150000, years_operating = 155\<rparr>"

definition sample_about :: about where
  "sample_about =
     \<lparr>history = ''Catholic Charities began as an orphanage.'', founded = 1869,
      stats = Some sample_stats\<rparr>"

definition sample_organization :: organization where
  "sample_organization =
     \<lparr>mission = ''We serve those most in need.'',
      org_source_url = ''https://www.cctwincities.org'',
      service_area = ''Twin Cities'',
      about = Some sample_about,
      services =
        Some [\<lparr>svc_name = ''Food Services'', svc_description = ''Meals every day.'',
               svc_keywords = [''meal'', ''food'']\<rparr>],
      org_contact =
        Some \<lparr>main_phone = ''(612) 204-8500'', main_email = ''info@cctwincities.org'',
              hours = ''Monday-Friday 8am-4:30pm''\<rparr>,
      locations =
        Some [\<lparr>loc_name = ''Higher Ground'', loc_address = ''165 Glenwood Ave, Minneapolis'',
               loc_phone = None\<rparr>],
      upcoming_events =
        Some [\<lparr>evt_name = ''Gala'', evt_date = ''May 1'', evt_description = ''Annual dinner.'',
               evt_url = ''https://www.cctwincities.org/gala''\<rparr>]\<rparr>"

definition sample_query :: search_params where
  "sample_query = no_params\<lparr>p_city := Some ''PAUL'', p_age_minimum := Some 16\<rparr>"

section \<open>Properties of the filter chain\<close>

lemmas keeps_defs = keeps_keyword_def keeps_city_def keeps_schedule_def keeps_age_def
  keeps_group_def keeps_skill_def

lemmas keeps_abs_defs = keeps_keyword_def [abs_def] keeps_city_def [abs_def]
  keeps_schedule_def [abs_def] keeps_age_def [abs_def] keeps_group_def [abs_def]
  keeps_skill_def [abs_def]

text \<open>Each step is a filter by the condition it imposes, and so is the chain.\<close>

lemma keyword_step_filter: "keyword_step p xs = filter (keeps_keyword p) xs"
  by (cases "p_keyword p") (simp_all add: keyword_step_def keeps_keyword_def[abs_def] Let_def)

lemma city_step_filter: "city_step p xs = filter (keeps_city p) xs"
  by (cases "p_city p") (simp_all add: city_step_def keeps_city_def[abs_def] Let_def)

lemma schedule_step_filter: "schedule_step p xs = filter (keeps_schedule p) xs"
  by (cases "p_schedule_type p") (simp_all add: schedule_step_def keeps_schedule_def[abs_def])

lemma age_step_filter: "age_step p xs = filter (keeps_age p) xs"
  by (cases "p_age_minimum p") (simp_all add: age_step_def keeps_age_def[abs_def])

lemma group_step_filter: "group_step p xs = filter (keeps_group p) xs"
  by (cases "p_group_friendly p") (simp_all add: group_step_def keeps_group_def[abs_def])

lemma skill_step_filter: "skill_step p xs = filter (keeps_skill p) xs"
  by (cases "p_skill p") (simp_all add: skill_step_def keeps_skill_def[abs_def] Let_def)

lemma filter_opportunities_filter:
  "filter_opportunities opps p =
     filter (\<lambda>opp. keeps_keyword p opp \<and> keeps_city p opp \<and> keeps_schedule p opp \<and>
                    keeps_age p opp \<and> keeps_group p opp \<and> keeps_skill p opp) opps"
  unfolding filter_opportunities_def keyword_step_filter city_step_filter schedule_step_filter
    age_step_filter group_step_filter skill_step_filter filter_filter
  by (rule filter_cong) auto

text \<open>A query of one criterion filters by the condition of that criterion alone.\<close>

lemma only_keyword_filter:
  "filter_opportunities opps (only_keyword p) = filter (keeps_keyword p) opps"
  by (simp add: filter_opportunities_filter only_keyword_def no_params_def
      keeps_abs_defs)

lemma only_city_filter: "filter_opportunities opps (only_city p) = filter (keeps_city p) opps"
  by (simp add: filter_opportunities_filter only_city_def no_params_def
      keeps_abs_defs)

lemma only_schedule_type_filter:
  "filter_opportunities opps (only_schedule_type p) = filter (keeps_schedule p) opps"
  by (simp add: filter_opportunities_filter only_schedule_type_def no_params_def
      keeps_abs_defs)

lemma only_age_minimum_filter:
  "filter_opportunities opps (only_age_minimum p) = filter (keeps_age p) opps"
  by (simp add: filter_opportunities_filter only_age_minimum_def no_params_def
      keeps_abs_defs)

lemma only_group_friendly_filter:
  "filter_opportunities opps (only_group_friendly p) = filter (keeps_group p) opps"
  by (simp add: filter_opportunities_filter only_group_friendly_def no_params_def
      keeps_abs_defs)

lemma only_skill_filter: "filter_opportunities opps (only_skill p) = filter (keeps_skill p) opps"
  by (simp add: filter_opportunities_filter only_skill_def no_params_def
      keeps_abs_defs)

lemma filter_no_params: "filter_opportunities opps no_params = opps"
  by (simp add: filter_opportunities_filter no_params_def
      keeps_abs_defs)

lemmas only_filters = only_keyword_filter only_city_filter only_schedule_type_filter
  only_age_minimum_filter only_group_friendly_filter only_skill_filter

lemmas sample_defs = meal_service_def sewing_circle_def no_params_def

lemmas str_eval = str_includes_def toLowerCase_def lower_char_def sublist_code

lemma count_list_filter_le: "count_list (filter P xs) x \<le> count_list xs x"
  by (induction xs) auto

lemma empty_keyword_skipped:
  "filter_opportunities opps (p\<lparr>p_keyword := Some []\<rparr>) =
   filter_opportunities opps (p\<lparr>p_keyword := None\<rparr>)"
  by (simp add: filter_opportunities_filter keeps_defs)

lemma empty_city_skipped:
  "filter_opportunities opps (p\<lparr>p_city := Some []\<rparr>) =
   filter_opportunities opps (p\<lparr>p_city := None\<rparr>)"
  by (simp add: filter_opportunities_filter keeps_defs)

lemma empty_skill_skipped:
  "filter_opportunities opps (p\<lparr>p_skill := Some []\<rparr>) =
   filter_opportunities opps (p\<lparr>p_skill := None\<rparr>)"
  by (simp add: filter_opportunities_filter keeps_defs)

text \<open>The sample list under the sample query and under its criteria taken one at a time.\<close>

lemma sample_query_all: "filter_opportunities [meal_service, sewing_circle] sample_query = []"
  by (simp add: sample_query_def filter_opportunities_filter keeps_defs sample_defs str_eval)

lemma sample_query_city:
  "filter_opportunities [meal_service, sewing_circle] (only_city sample_query) = [sewing_circle]"
  by (simp add: sample_query_def only_city_def filter_opportunities_filter keeps_defs
      sample_defs str_eval)

lemma sample_query_age:
  "filter_opportunities [meal_service, sewing_circle] (only_age_minimum sample_query) =
     [meal_service]"
  by (simp add: sample_query_def only_age_minimum_def filter_opportunities_filter keeps_defs
      sample_defs str_eval)

section \<open>Properties of the handlers\<close>

lemma copy_opp_ident: "map copy_opp xs = xs"
  by (induction xs) (simp_all add: copy_opp_def)

lemma handler_cong:
  "filter_opportunities (opportunities vol) p = filter_opportunities (opportunities vol) q \<Longrightarrow>
   get_volunteer_opportunities vol p = get_volunteer_opportunities vol q"
  by (simp add: get_volunteer_opportunities_def volunteer_body_def)

lemma volunteer_body_empty:
  "filter_opportunities (opportunities vol) p = [] \<Longrightarrow> general_info vol = Some gi \<Longrightarrow>
   volunteer_body vol p =
     Inr \<lparr>resp_text = no_match_text,
          structuredContent = Some \<lparr>sc_opportunities = [], sc_contact = main_contact gi\<rparr>,
          resp_meta = Some volunteer_meta\<rparr>"
  by (simp add: volunteer_body_def text_summary_def)

lemma structured_of_handler:
  "general_info vol = Some gi \<Longrightarrow> main_contact gi = Some c \<Longrightarrow>
   structuredContent (get_volunteer_opportunities vol p) =
     Some \<lparr>sc_opportunities = filter_opportunities (opportunities vol) p, sc_contact = Some c\<rparr>"
  by (simp add: get_volunteer_opportunities_def volunteer_body_def text_summary_def
      copy_opp_ident Let_def)

lemma schema_accepts:
  "GetDonationOptionsSchema v = Some t \<longleftrightarrow> t = v \<and> v \<in> set donation_types"
  by (auto simp: GetDonationOptionsSchema_def)

lemma mission_query_parts:
  "services_part org ''mission'' = Inr []"
  "contact_part org ''mission'' = Inr []"
  "events_part org ''mission'' = Inr []"
  "stats_part org ''mission'' = Inr []"
  by (simp_all add: services_part_def contact_part_def events_part_def stats_part_def
      serviceKeywords_def str_includes_def sublist_code)

section \<open>The claims\<close>

text \<open>
  C1. For every opportunity list and every combination of the six optional criteria,
  the search returns exactly the opportunities that satisfy all supplied criteria: the
  result is the stored list filtered by membership in each of the six results obtained
  with one criterion of the query alone, its set is the intersection of those six
  results, and the query with no criterion returns the whole list.
\<close>

theorem search_is_intersection_of_criteria:
  "filter_opportunities opps p =
     filter (\<lambda>opp. opp \<in> set (filter_opportunities opps (only_keyword p)) \<and>
                    opp \<in> set (filter_opportunities opps (only_city p)) \<and>
                    opp \<in> set (filter_opportunities opps (only_schedule_type p)) \<and>
                    opp \<in> set (filter_opportunities opps (only_age_minimum p)) \<and>
                    opp \<in> set (filter_opportunities opps (only_group_friendly p)) \<and>
                    opp \<in> set (filter_opportunities opps (only_skill p))) opps
   \<and> set (filter_opportunities opps p) =
       set (filter_opportunities opps (only_keyword p)) \<inter>
       set (filter_opportunities opps (only_city p)) \<inter>
       set (filter_opportunities opps (only_schedule_type p)) \<inter>
       set (filter_opportunities opps (only_age_minimum p)) \<inter>
       set (filter_opportunities opps (only_group_friendly p)) \<inter>
       set (filter_opportunities opps (only_skill p))
   \<and> filter_opportunities opps no_params = opps"
proof (intro conjI)
  show "filter_opportunities opps p =
     filter (\<lambda>opp. opp \<in> set (filter_opportunities opps (only_keyword p)) \<and>
                    opp \<in> set (filter_opportunities opps (only_city p)) \<and>
                    opp \<in> set (filter_opportunities opps (only_schedule_type p)) \<and>
                    opp \<in> set (filter_opportunities opps (only_age_minimum p)) \<and>
                    opp \<in> set (filter_opportunities opps (only_group_friendly p)) \<and>
                    opp \<in> set (filter_opportunities opps (only_skill p))) opps"
    unfolding only_filters
    by (subst filter_opportunities_filter, rule filter_cong) auto
  show "set (filter_opportunities opps p) =
       set (filter_opportunities opps (only_keyword p)) \<inter>
       set (filter_opportunities opps (only_city p)) \<inter>
       set (filter_opportunities opps (only_schedule_type p)) \<inter>
       set (filter_opportunities opps (only_age_minimum p)) \<inter>
       set (filter_opportunities opps (only_group_friendly p)) \<inter>
       set (filter_opportunities opps (only_skill p))"
    unfolding only_filters
    by (subst filter_opportunities_filter) auto
  show "filter_opportunities opps no_params = opps"
    by (rule filter_no_params)
qed

text \<open>
  On the sample list, the query for a city containing \<open>PAUL\<close> and an age threshold of
  16: the city alone keeps the second opportunity, the age alone keeps the first, and
  together they keep none.
\<close>

theorem search_is_intersection_of_criteria_witness:
  "set (filter_opportunities [meal_service, sewing_circle] sample_query) =
       set (filter_opportunities [meal_service, sewing_circle] (only_keyword sample_query)) \<inter>
       set (filter_opportunities [meal_service, sewing_circle] (only_city sample_query)) \<inter>
       set (filter_opportunities [meal_service, sewing_circle] (only_schedule_type sample_query)) \<inter>
       set (filter_opportunities [meal_service, sewing_circle] (only_age_minimum sample_query)) \<inter>
       set (filter_opportunities [meal_service, sewing_circle] (only_group_friendly sample_query)) \<inter>
       set (filter_opportunities [meal_service, sewing_circle] (only_skill sample_query))
   \<and> filter_opportunities [meal_service, sewing_circle] sample_query = []
   \<and> filter_opportunities [meal_service, sewing_circle] (only_city sample_query) =
       [sewing_circle]
   \<and> filter_opportunities [meal_service, sewing_circle] (only_age_minimum sample_query) =
       [meal_service]"
  by (intro conjI sample_query_all sample_query_city sample_query_age
      search_is_intersection_of_criteria
        [where opps = "[meal_service, sewing_circle]" and p = sample_query,
          THEN conjunct2, THEN conjunct1])

text \<open>
  C2. For every opportunity list, a query with \<open>age_minimum = A\<close> keeps exactly the
  opportunities whose own minimum age is at most \<open>A\<close>: added to any other criteria it
  filters their result by \<open>age_minimum \<le> A\<close>, and alone it filters the stored list so.
\<close>

theorem age_minimum_is_inclusive_upper_bound:
  "filter_opportunities opps (p\<lparr>p_age_minimum := Some A\<rparr>) =
     filter (\<lambda>opp. age_minimum (requirements opp) \<le> A)
       (filter_opportunities opps (p\<lparr>p_age_minimum := None\<rparr>))
   \<and> filter_opportunities opps (no_params\<lparr>p_age_minimum := Some A\<rparr>) =
       filter (\<lambda>opp. age_minimum (requirements opp) \<le> A) opps"
proof (intro conjI)
  show "filter_opportunities opps (p\<lparr>p_age_minimum := Some A\<rparr>) =
     filter (\<lambda>opp. age_minimum (requirements opp) \<le> A)
       (filter_opportunities opps (p\<lparr>p_age_minimum := None\<rparr>))"
    unfolding filter_opportunities_filter filter_filter
    by (rule filter_cong) (auto simp: keeps_defs)
  show "filter_opportunities opps (no_params\<lparr>p_age_minimum := Some A\<rparr>) =
       filter (\<lambda>opp. age_minimum (requirements opp) \<le> A) opps"
    unfolding filter_opportunities_filter
    by (rule filter_cong) (auto simp: keeps_defs no_params_def)
qed

text \<open>
  The example of the specification: of two opportunities asking for ages 14 and 18, the
  query \<open>age_minimum = 16\<close> returns the first only, and so does \<open>age_minimum = 14\<close>.
\<close>

theorem age_minimum_is_inclusive_upper_bound_witness:
  "age_minimum (requirements meal_service) = 14
   \<and> age_minimum (requirements sewing_circle) = 18
   \<and> filter_opportunities [meal_service, sewing_circle] (no_params\<lparr>p_age_minimum := Some 16\<rparr>) =
       [meal_service]
   \<and> filter_opportunities [meal_service, sewing_circle] (no_params\<lparr>p_age_minimum := Some 14\<rparr>) =
       [meal_service]"
proof -
  have ages: "age_minimum (requirements meal_service) = 14"
    "age_minimum (requirements sewing_circle) = 18"
    by (simp_all add: meal_service_def sewing_circle_def)
  show ?thesis
    using ages
      age_minimum_is_inclusive_upper_bound
        [where opps = "[meal_service, sewing_circle]" and p = no_params and A = 16,
          THEN conjunct2]
      age_minimum_is_inclusive_upper_bound
        [where opps = "[meal_service, sewing_circle]" and p = no_params and A = 14,
          THEN conjunct2]
    by simp
qed

text \<open>
  C3. For every opportunity list and every combination of criteria, the returned list
  is a subsequence of the stored list: the stored order is kept, and no element occurs
  more often than in the stored list. The same holds of the list in the structured
  content of the response.
\<close>

theorem result_is_subsequence:
  "subseq (filter_opportunities opps p) opps
   \<and> (\<forall>x. count_list (filter_opportunities opps p) x \<le> count_list opps x)
   \<and> (structuredContent (get_volunteer_opportunities vol p) = Some sc \<longrightarrow>
        subseq (sc_opportunities sc) (opportunities vol))"
proof (intro conjI allI impI)
  show "subseq (filter_opportunities opps p) opps"
    by (simp add: filter_opportunities_filter)
  show "count_list (filter_opportunities opps p) x \<le> count_list opps x" for x
    by (simp add: filter_opportunities_filter count_list_filter_le)
  assume "structuredContent (get_volunteer_opportunities vol p) = Some sc"
  then have "sc_opportunities sc = filter_opportunities (opportunities vol) p"
    by (auto simp: get_volunteer_opportunities_def volunteer_body_def text_response_def
        copy_opp_ident Let_def split: option.splits sum.splits)
  then show "subseq (sc_opportunities sc) (opportunities vol)"
    by (simp add: filter_opportunities_filter)
qed

text \<open>
  On the sample store the query \<open>age_minimum = 16\<close> puts the first opportunity alone
  into the structured content.
\<close>

theorem result_is_subsequence_witness:
  "structuredContent (get_volunteer_opportunities sample_volunteer
      (no_params\<lparr>p_age_minimum := Some 16\<rparr>)) =
     Some \<lparr>sc_opportunities = [meal_service],
           sc_contact = Some \<lparr>phone = ''(612) 204-8435'', email = ''volunteer@cctwincities.org''\<rparr>\<rparr>
   \<and> subseq [meal_service] (opportunities sample_volunteer)"
proof -
  have sc: "structuredContent (get_volunteer_opportunities sample_volunteer
      (no_params\<lparr>p_age_minimum := Some 16\<rparr>)) =
     Some \<lparr>sc_opportunities = [meal_service],
           sc_contact = Some \<lparr>phone = ''(612) 204-8435'', email = ''volunteer@cctwincities.org''\<rparr>\<rparr>"
    by (simp add: structured_of_handler [where gi = "\<lparr>main_contact =
          Some \<lparr>phone = ''(612) 204-8435'', email = ''volunteer@cctwincities.org''\<rparr>\<rparr>"]
        sample_volunteer_def filter_opportunities_filter keeps_defs sample_defs)
  show ?thesis
    using sc result_is_subsequence [THEN conjunct2, THEN conjunct2, THEN mp, OF sc]
    by simp
qed

text \<open>
  C4, as the specification states it: the keyword criterion keeps an opportunity if and
  only if the lower-cased keyword occurs in the lower-cased concatenation of title and
  description, also across the boundary between the two. The handler tests the title
  and the description one after the other: the keyword \<open>ceS\<close> occurs in
  \<open>Meal Service\<close> followed by \<open>Serve dinner at Higher Ground.\<close>, across the boundary,
  and the search drops the opportunity.
\<close>

theorem keyword_spanning_boundary_counterexample:
  "str_includes (toLowerCase (title meal_service @ description meal_service)) (toLowerCase ''ceS'')
   \<and> filter_opportunities [meal_service] (no_params\<lparr>p_keyword := Some ''ceS''\<rparr>) = []"
  by (simp add: filter_opportunities_filter keeps_defs sample_defs str_eval)

text \<open>
  C4, amended. For every opportunity list and every supplied keyword string, the
  keyword criterion keeps exactly the opportunities whose lower-cased title contains the
  lower-cased keyword or whose lower-cased description contains it; alone it filters the
  stored list so, and added to other criteria it filters their result so.
\<close>

theorem keyword_matches_title_or_description:
  "filter_opportunities opps (no_params\<lparr>p_keyword := Some k\<rparr>) =
     filter (\<lambda>opp. str_includes (toLowerCase (title opp)) (toLowerCase k) \<or>
                    str_includes (toLowerCase (description opp)) (toLowerCase k)) opps
   \<and> filter_opportunities opps (p\<lparr>p_keyword := Some k\<rparr>) =
     filter (\<lambda>opp. str_includes (toLowerCase (title opp)) (toLowerCase k) \<or>
                    str_includes (toLowerCase (description opp)) (toLowerCase k))
       (filter_opportunities opps (p\<lparr>p_keyword := None\<rparr>))"
proof (intro conjI)
  have empty: "str_includes s (toLowerCase [])" for s
    by (simp add: str_includes_def toLowerCase_def)
  show "filter_opportunities opps (no_params\<lparr>p_keyword := Some k\<rparr>) =
     filter (\<lambda>opp. str_includes (toLowerCase (title opp)) (toLowerCase k) \<or>
                    str_includes (toLowerCase (description opp)) (toLowerCase k)) opps"
    unfolding filter_opportunities_filter
    by (rule filter_cong) (auto simp: keeps_defs no_params_def empty)
  show "filter_opportunities opps (p\<lparr>p_keyword := Some k\<rparr>) =
     filter (\<lambda>opp. str_includes (toLowerCase (title opp)) (toLowerCase k) \<or>
                    str_includes (toLowerCase (description opp)) (toLowerCase k))
       (filter_opportunities opps (p\<lparr>p_keyword := None\<rparr>))"
    unfolding filter_opportunities_filter filter_filter
    by (rule filter_cong) (auto simp: keeps_defs empty)
qed

text \<open>
  The keyword \<open>DINNER\<close> occurs in the description of the first sample opportunity only,
  the keyword \<open>sewing\<close> in the title of the second only.
\<close>

theorem keyword_matches_title_or_description_witness:
  "filter_opportunities [meal_service, sewing_circle] (no_params\<lparr>p_keyword := Some ''DINNER''\<rparr>) =
     [meal_service]
   \<and> filter_opportunities [meal_service, sewing_circle] (no_params\<lparr>p_keyword := Some ''sewing''\<rparr>) =
     [sewing_circle]"
  using keyword_matches_title_or_description
      [where opps = "[meal_service, sewing_circle]" and k = "''DINNER''", THEN conjunct1]
    keyword_matches_title_or_description
      [where opps = "[meal_service, sewing_circle]" and k = "''sewing''", THEN conjunct1]
  by (simp add: sample_defs str_eval)

text \<open>
  C5. For every query whose filtered result is empty, on a store that holds the
  \<open>general_info\<close> object, the search returns without an exception; the text of the
  response is the apology, which contains the volunteer contact phone
  \<open>(612) 204-8435\<close> and email \<open>volunteer@cctwincities.org\<close>, and the structured content
  holds the empty opportunity list.
\<close>

theorem zero_result_response:
  assumes "filter_opportunities (opportunities vol) p = []"
    and "general_info vol = Some gi"
  shows "volunteer_body vol p = Inr (get_volunteer_opportunities vol p)
    \<and> resp_text (get_volunteer_opportunities vol p) = no_match_text
    \<and> str_includes no_match_text ''(612) 204-8435''
    \<and> str_includes no_match_text ''volunteer@cctwincities.org''
    \<and> structuredContent (get_volunteer_opportunities vol p) =
        Some \<lparr>sc_opportunities = [], sc_contact = main_contact gi\<rparr>"
proof -
  have contains: "str_includes no_match_text ''(612) 204-8435''"
    "str_includes no_match_text ''volunteer@cctwincities.org''"
    by (simp_all add: no_match_text_def str_includes_def sublist_code)
  show ?thesis
    using contains
    by (simp add: get_volunteer_opportunities_def volunteer_body_empty [OF assms])
qed

text \<open>The example of the specification: the city \<open>Nonexistent City\<close> on the sample store.\<close>

theorem zero_result_response_witness:
  "filter_opportunities (opportunities sample_volunteer)
      (no_params\<lparr>p_city := Some ''Nonexistent City''\<rparr>) = []
   \<and> resp_text (get_volunteer_opportunities sample_volunteer
        (no_params\<lparr>p_city := Some ''Nonexistent City''\<rparr>)) = no_match_text
   \<and> structuredContent (get_volunteer_opportunities sample_volunteer
        (no_params\<lparr>p_city := Some ''Nonexistent City''\<rparr>)) =
      Some \<lparr>sc_opportunities = [],
            sc_contact = Some \<lparr>phone = ''(612) 204-8435'', email = ''volunteer@cctwincities.org''\<rparr>\<rparr>"
proof -
  have none: "filter_opportunities (opportunities sample_volunteer)
      (no_params\<lparr>p_city := Some ''Nonexistent City''\<rparr>) = []"
    by (simp add: sample_volunteer_def filter_opportunities_filter keeps_defs sample_defs str_eval)
  have gi: "general_info sample_volunteer =
      Some \<lparr>main_contact = Some \<lparr>phone = ''(612) 204-8435'', email = ''volunteer@cctwincities.org''\<rparr>\<rparr>"
    by (simp add: sample_volunteer_def)
  show ?thesis
    using none zero_result_response [OF none gi] by simp
qed

text \<open>
  C6. For each of the three type values \<open>online\<close>, \<open>in_kind\<close> and \<open>vehicle\<close> the
  schema accepts the value, the handler is called and returns a response, and the
  chain of comparisons reaches one of the three rendering branches, a different one for
  each value, and never falls through. Where the store holds the section under that
  key, the response is the rendering of that section. A value outside the three is
  refused by the schema and the handler is not called.
\<close>

theorem donation_lookup_total:
  "(\<forall>t \<in> set donation_types.
      GetDonationOptionsSchema t = Some t \<and> select_branch t \<noteq> NoBranch \<and>
      call_get_donation_options don t = Some (get_donation_options don t))
   \<and> select_branch ''online'' = OnlineBranch
   \<and> select_branch ''in_kind'' = InKindBranch
   \<and> select_branch ''vehicle'' = VehicleBranch
   \<and> (online don = Some od \<longrightarrow>
        get_donation_options don ''online'' = text_response (online_text od))
   \<and> (in_kind don = Some ik \<longrightarrow>
        get_donation_options don ''in_kind'' = text_response (in_kind_text ik))
   \<and> (vehicle don = Some vd \<longrightarrow>
        get_donation_options don ''vehicle'' = text_response (vehicle_text vd))
   \<and> (v \<notin> set donation_types \<longrightarrow> call_get_donation_options don v = None)"
proof (intro conjI ballI impI)
  fix t assume t: "t \<in> set donation_types"
  then show "GetDonationOptionsSchema t = Some t"
    by (simp add: schema_accepts)
  then show "call_get_donation_options don t = Some (get_donation_options don t)"
    by (simp add: call_get_donation_options_def)
  from t show "select_branch t \<noteq> NoBranch"
    by (auto simp: donation_types_def select_branch_def)
next
  show "select_branch ''online'' = OnlineBranch" "select_branch ''in_kind'' = InKindBranch"
    "select_branch ''vehicle'' = VehicleBranch"
    by (simp_all add: select_branch_def)
next
  assume "online don = Some od"
  then show "get_donation_options don ''online'' = text_response (online_text od)"
    by (simp add: get_donation_options_def donation_body_def donation_text_def select_branch_def)
next
  assume "in_kind don = Some ik"
  then show "get_donation_options don ''in_kind'' = text_response (in_kind_text ik)"
    by (simp add: get_donation_options_def donation_body_def donation_text_def select_branch_def)
next
  assume "vehicle don = Some vd"
  then show "get_donation_options don ''vehicle'' = text_response (vehicle_text vd)"
    by (simp add: get_donation_options_def donation_body_def donation_text_def select_branch_def)
next
  assume "v \<notin> set donation_types"
  then show "call_get_donation_options don v = None"
    by (simp add: call_get_donation_options_def GetDonationOptionsSchema_def)
qed

text \<open>The three sections of the sample store, and the type \<open>cash\<close>.\<close>

theorem donation_lookup_total_witness:
  "call_get_donation_options sample_donations ''online'' =
     Some (text_response (online_text sample_online))
   \<and> call_get_donation_options sample_donations ''in_kind'' =
     Some (text_response (in_kind_text sample_in_kind))
   \<and> call_get_donation_options sample_donations ''vehicle'' =
     Some (text_response (vehicle_text sample_vehicle))
   \<and> call_get_donation_options sample_donations ''cash'' = None"
  using donation_lookup_total [where don = sample_donations and od = sample_online
      and ik = sample_in_kind and vd = sample_vehicle and v = "''cash''"]
  by (simp add: donation_types_def sample_donations_def)

text \<open>
  C7. In each of the three operations, whenever the body of the \<open>try\<close> block throws,
  whatever the exception, the operation returns the plain-text response that holds its
  own fixed apology: the apology names the contact of its domain and does not depend
  on the exception. Each operation has this \<open>catch\<close> of its own.
\<close>

theorem exceptions_are_isolated:
  "(volunteer_body vol p = Inl e1 \<longrightarrow>
      get_volunteer_opportunities vol p = text_response volunteer_error_text)
   \<and> (donation_body don t = Inl e2 \<longrightarrow>
      get_donation_options don t = text_response donation_error_text)
   \<and> (org_body org q = Inl e3 \<longrightarrow>
      search_org_info org q = text_response org_error_text)
   \<and> str_includes volunteer_error_text ''Sorry, an error occurred''
   \<and> str_includes volunteer_error_text ''contact volunteer@cctwincities.org at (612) 204-8435''
   \<and> str_includes donation_error_text ''Sorry, an error occurred''
   \<and> str_includes donation_error_text ''contact giving.info@cctwincities.org at (612) 204-8374''
   \<and> str_includes org_error_text ''Sorry, an error occurred''
   \<and> str_includes org_error_text ''contact info@cctwincities.org at (612) 204-8500''"
proof (intro conjI impI)
  assume "volunteer_body vol p = Inl e1"
  then show "get_volunteer_opportunities vol p = text_response volunteer_error_text"
    by (simp add: get_volunteer_opportunities_def)
next
  assume "donation_body don t = Inl e2"
  then show "get_donation_options don t = text_response donation_error_text"
    by (simp add: get_donation_options_def)
next
  assume "org_body org q = Inl e3"
  then show "search_org_info org q = text_response org_error_text"
    by (simp add: search_org_info_def)
next
  show "str_includes volunteer_error_text ''Sorry, an error occurred''"
    by (simp add: volunteer_error_text_def str_includes_def sublist_code)
  show "str_includes volunteer_error_text ''contact volunteer@cctwincities.org at (612) 204-8435''"
    by (simp add: volunteer_error_text_def str_includes_def sublist_code)
  show "str_includes donation_error_text ''Sorry, an error occurred''"
    by (simp add: donation_error_text_def str_includes_def sublist_code)
  show "str_includes donation_error_text ''contact giving.info@cctwincities.org at (612) 204-8374''"
    by (simp add: donation_error_text_def str_includes_def sublist_code)
  show "str_includes org_error_text ''Sorry, an error occurred''"
    by (simp add: org_error_text_def str_includes_def sublist_code)
  show "str_includes org_error_text ''contact info@cctwincities.org at (612) 204-8500''"
    by (simp add: org_error_text_def str_includes_def sublist_code)
qed

text \<open>
  A store without \<open>general_info\<close>, a store without the \<open>vehicle\<close> section and a store
  without \<open>about\<close>: each body throws a \<open>TypeError\<close>, and each operation returns its
  apology.
\<close>

theorem exceptions_are_isolated_witness:
  "volunteer_body (sample_volunteer\<lparr>general_info := None\<rparr>) no_params =
      Inl (TypeError ''main_contact'')
   \<and> get_volunteer_opportunities (sample_volunteer\<lparr>general_info := None\<rparr>) no_params =
      text_response volunteer_error_text
   \<and> donation_body (sample_donations\<lparr>vehicle := None\<rparr>) ''vehicle'' =
      Inl (TypeError ''process_description'')
   \<and> get_donation_options (sample_donations\<lparr>vehicle := None\<rparr>) ''vehicle'' =
      text_response donation_error_text
   \<and> org_body (sample_organization\<lparr>about := None\<rparr>) ''Mission'' = Inl (TypeError ''history'')
   \<and> search_org_info (sample_organization\<lparr>about := None\<rparr>) ''Mission'' =
      text_response org_error_text"
proof -
  have v: "volunteer_body (sample_volunteer\<lparr>general_info := None\<rparr>) no_params =
      Inl (TypeError ''main_contact'')"
    by (simp add: volunteer_body_def sample_volunteer_def)
  have d: "donation_body (sample_donations\<lparr>vehicle := None\<rparr>) ''vehicle'' =
      Inl (TypeError ''process_description'')"
    by (simp add: donation_body_def donation_text_def select_branch_def sample_donations_def)
  have o: "org_body (sample_organization\<lparr>about := None\<rparr>) ''Mission'' = Inl (TypeError ''history'')"
    by (simp add: org_body_def org_results_def mission_part_def sample_organization_def str_eval)
  show ?thesis
    using v d o
      exceptions_are_isolated [where vol = "sample_volunteer\<lparr>general_info := None\<rparr>"
        and p = no_params and ?e1.0 = "TypeError ''main_contact''"
        and don = "sample_donations\<lparr>vehicle := None\<rparr>" and t = "''vehicle''"
        and ?e2.0 = "TypeError ''process_description''"
        and org = "sample_organization\<lparr>about := None\<rparr>" and q = "''Mission''"
        and ?e3.0 = "TypeError ''history''"]
    by simp
qed

text \<open>
  C8. On a store that holds \<open>about\<close> and its \<open>stats\<close>, the organization search with
  the query \<open>mission\<close> returns exactly a mission block and a history block: the
  services, contact, events and statistics searches push nothing for this query.
\<close>

theorem mission_query_blocks:
  assumes "about org = Some a" and "stats a = Some st"
  shows "org_results org (toLowerCase ''mission'') =
      Inr [\<lparr>heading = ''Mission'', summary = mission org, block_source_url = org_source_url org\<rparr>,
           \<lparr>heading = ''History'',
            summary = history a @ '' Founded in '' @ show_int (founded a) @
              '', Catholic Charities has served the Twin Cities for '' @
              show_int (years_operating st) @ '' years.'',
            block_source_url = org_source_url org\<rparr>]
    \<and> services_part org (toLowerCase ''mission'') = Inr []
    \<and> contact_part org (toLowerCase ''mission'') = Inr []
    \<and> events_part org (toLowerCase ''mission'') = Inr []
    \<and> stats_part org (toLowerCase ''mission'') = Inr []
    \<and> search_org_info org ''mission'' =
        text_response (str_join ''\<newline>\<newline>---\<newline>\<newline>''
          (map block_text
            [\<lparr>heading = ''Mission'', summary = mission org, block_source_url = org_source_url org\<rparr>,
             \<lparr>heading = ''History'',
              summary = history a @ '' Founded in '' @ show_int (founded a) @
                '', Catholic Charities has served the Twin Cities for '' @
                show_int (years_operating st) @ '' years.'',
              block_source_url = org_source_url org\<rparr>]))"
proof -
  have lc: "toLowerCase ''mission'' = ''mission''"
    by (simp add: toLowerCase_def lower_char_def)
  have m: "mission_part org ''mission'' =
      Inr [\<lparr>heading = ''Mission'', summary = mission org, block_source_url = org_source_url org\<rparr>,
           \<lparr>heading = ''History'',
            summary = history a @ '' Founded in '' @ show_int (founded a) @
              '', Catholic Charities has served the Twin Cities for '' @
              show_int (years_operating st) @ '' years.'',
            block_source_url = org_source_url org\<rparr>]"
    using assms by (simp add: mission_part_def str_includes_def sublist_code)
  have r: "org_results org ''mission'' =
      Inr [\<lparr>heading = ''Mission'', summary = mission org, block_source_url = org_source_url org\<rparr>,
           \<lparr>heading = ''History'',
            summary = history a @ '' Founded in '' @ show_int (founded a) @
              '', Catholic Charities has served the Twin Cities for '' @
              show_int (years_operating st) @ '' years.'',
            block_source_url = org_source_url org\<rparr>]"
    unfolding org_results_def m mission_query_parts by simp
  show ?thesis
    unfolding lc
    by (simp add: r mission_query_parts search_org_info_def org_body_def lc)
qed

text \<open>The query \<open>mission\<close> on the sample store.\<close>

theorem mission_query_blocks_witness:
  "about sample_organization = Some sample_about \<and> stats sample_about = Some sample_stats
   \<and> map heading (projr (org_results sample_organization (toLowerCase ''mission''))) =
       [''Mission'', ''History'']
   \<and> resp_text (search_org_info sample_organization ''mission'') =
       ''**Mission**\<newline>\<newline>We serve those most in need.\<newline>\<newline>Source: https://www.cctwincities.org\<newline>\<newline>---\<newline>\<newline>**History**\<newline>\<newline>Catholic Charities began as an orphanage. Founded in 1869, Catholic Charities has served the Twin Cities for 155 years.\<newline>\<newline>Source: https://www.cctwincities.org''"
proof -
  have a: "about sample_organization = Some sample_about"
    by (simp add: sample_organization_def)
  have s: "stats sample_about = Some sample_stats"
    by (simp add: sample_about_def)
  have n1: "show_int (founded sample_about) = ''1869''"
    by (simp add: sample_about_def show_int_def show_nat.simps digit_char_def)
  have n2: "show_int (years_operating sample_stats) = ''155''"
    by (simp add: sample_stats_def show_int_def show_nat.simps digit_char_def)
  show ?thesis
    using a s mission_query_blocks [OF a s]
    by (simp add: n1 n2 text_response_def block_text_def)
       (simp add: sample_organization_def sample_about_def)
qed

text \<open>
  C9. For every combination of criteria, the empty string as keyword, as city or as
  skill gives the same filtered list, and the same response, as leaving that criterion
  out.
\<close>

theorem empty_string_criterion_is_omitted:
  "filter_opportunities opps (p\<lparr>p_keyword := Some ''''\<rparr>) =
     filter_opportunities opps (p\<lparr>p_keyword := None\<rparr>)
   \<and> filter_opportunities opps (p\<lparr>p_city := Some ''''\<rparr>) =
     filter_opportunities opps (p\<lparr>p_city := None\<rparr>)
   \<and> filter_opportunities opps (p\<lparr>p_skill := Some ''''\<rparr>) =
     filter_opportunities opps (p\<lparr>p_skill := None\<rparr>)
   \<and> get_volunteer_opportunities vol (p\<lparr>p_keyword := Some ''''\<rparr>) =
     get_volunteer_opportunities vol (p\<lparr>p_keyword := None\<rparr>)
   \<and> get_volunteer_opportunities vol (p\<lparr>p_city := Some ''''\<rparr>) =
     get_volunteer_opportunities vol (p\<lparr>p_city := None\<rparr>)
   \<and> get_volunteer_opportunities vol (p\<lparr>p_skill := Some ''''\<rparr>) =
     get_volunteer_opportunities vol (p\<lparr>p_skill := None\<rparr>)"
  by (intro conjI handler_cong empty_keyword_skipped empty_city_skipped empty_skill_skipped)

text \<open>
  With the empty keyword the sample query still keeps nothing, as without a keyword;
  with the empty city the query of no other criterion returns the whole sample list.
\<close>

theorem empty_string_criterion_is_omitted_witness:
  "filter_opportunities [meal_service, sewing_circle] (sample_query\<lparr>p_keyword := Some ''''\<rparr>) = []
   \<and> filter_opportunities [meal_service, sewing_circle] (no_params\<lparr>p_city := Some ''''\<rparr>) =
       [meal_service, sewing_circle]"
proof -
  have q: "sample_query\<lparr>p_keyword := None\<rparr> = sample_query"
    "no_params\<lparr>p_city := None\<rparr> = no_params"
    by (simp_all add: sample_query_def no_params_def)
  show ?thesis
    using empty_string_criterion_is_omitted
        [where opps = "[meal_service, sewing_circle]" and p = sample_query, THEN conjunct1]
      empty_string_criterion_is_omitted
        [where opps = "[meal_service, sewing_circle]" and p = no_params,
          THEN conjunct2, THEN conjunct1]
    by (simp only: q sample_query_all filter_no_params simp_thms)
qed

text \<open>
  C10. For every opportunity list, the \<open>group_friendly\<close> criterion filters by equality
  with the stored flag: added to any other criteria it keeps of their result exactly
  the opportunities whose flag equals the supplied value; alone, \<open>false\<close> returns
  exactly the opportunities whose flag is false and \<open>true\<close> exactly those whose flag is
  true.
\<close>

theorem group_friendly_is_boolean_equality:
  "filter_opportunities opps (p\<lparr>p_group_friendly := Some b\<rparr>) =
     filter (\<lambda>opp. group_friendly (requirements opp) = b)
       (filter_opportunities opps (p\<lparr>p_group_friendly := None\<rparr>))
   \<and> filter_opportunities opps (no_params\<lparr>p_group_friendly := Some False\<rparr>) =
       filter (\<lambda>opp. group_friendly (requirements opp) = False) opps
   \<and> filter_opportunities opps (no_params\<lparr>p_group_friendly := Some True\<rparr>) =
       filter (\<lambda>opp. group_friendly (requirements opp) = True) opps"
proof (intro conjI)
  show "filter_opportunities opps (p\<lparr>p_group_friendly := Some b\<rparr>) =
     filter (\<lambda>opp. group_friendly (requirements opp) = b)
       (filter_opportunities opps (p\<lparr>p_group_friendly := None\<rparr>))"
    unfolding filter_opportunities_filter filter_filter
    by (rule filter_cong) (auto simp: keeps_defs)
  show "filter_opportunities opps (no_params\<lparr>p_group_friendly := Some False\<rparr>) =
       filter (\<lambda>opp. group_friendly (requirements opp) = False) opps"
    unfolding filter_opportunities_filter
    by (rule filter_cong) (auto simp: keeps_defs no_params_def)
  show "filter_opportunities opps (no_params\<lparr>p_group_friendly := Some True\<rparr>) =
       filter (\<lambda>opp. group_friendly (requirements opp) = True) opps"
    unfolding filter_opportunities_filter
    by (rule filter_cong) (auto simp: keeps_defs no_params_def)
qed

text \<open>
  On the sample list \<open>group_friendly = false\<close> drops the group-friendly first
  opportunity, and \<open>group_friendly = true\<close> drops the second.
\<close>

theorem group_friendly_is_boolean_equality_witness:
  "group_friendly (requirements meal_service) = True
   \<and> group_friendly (requirements sewing_circle) = False
   \<and> filter_opportunities [meal_service, sewing_circle]
       (no_params\<lparr>p_group_friendly := Some False\<rparr>) = [sewing_circle]
   \<and> filter_opportunities [meal_service, sewing_circle]
       (no_params\<lparr>p_group_friendly := Some True\<rparr>) = [meal_service]"
proof -
  have flags: "group_friendly (requirements meal_service) = True"
    "group_friendly (requirements sewing_circle) = False"
    by (simp_all add: meal_service_def sewing_circle_def)
  show ?thesis
    using flags
      group_friendly_is_boolean_equality
        [where opps = "[meal_service, sewing_circle]", THEN conjunct2, THEN conjunct1]
      group_friendly_is_boolean_equality
        [where opps = "[meal_service, sewing_circle]", THEN conjunct2, THEN conjunct2]
    by simp
qed

end
